theory Spec2Isabelle
  imports Main
begin

section \<open>The thought store of quirk (store.ts)\<close>

text \<open>
  The store module keeps every thought as one JSON string in the host's flat key-value
  storage (AsyncStorage). The lifecycle state of a record is the prefix of its key. The
  model below follows the module function by function. What the module gets from outside
  (the JSON codec, the clock, the time zone, the identifier generator, the storage
  primitive and its failures) is passed in explicitly.
\<close>

subsection \<open>Values\<close>

text \<open>
  A JavaScript \<open>Date\<close>: either a point in time, in milliseconds since the epoch, or the
  invalid date that \<open>new Date(undefined)\<close> and \<open>new Date("rubbish")\<close> produce.
\<close>

datatype jsdate = InvalidDate | Date int

text \<open>
  A property of a JavaScript object is absent, or present and holding \<open>undefined\<close>, or
  present with a value. Reading the property gives \<open>undefined\<close> (\<open>None\<close>) in the first two
  cases; an object spread copies the property in the last two.
\<close>

datatype 'a jsprop = Absent | Undef | Has 'a

definition readProp :: "'a jsprop \<Rightarrow> 'a option" where
  "readProp p = (case p of Absent \<Rightarrow> None | Undef \<Rightarrow> None | Has x \<Rightarrow> Some x)"

text \<open>
  \<open>Thought\<close> and \<open>SavedThought\<close> are one JavaScript object shape; the declared \<open>Thought\<close>
  is the object without \<open>uuid\<close>, \<open>createdAt\<close> and \<open>updatedAt\<close>. A time stamp property
  holds the date that \<open>new Date(property)\<close> denotes, so a property read back from JSON as
  a string is already a \<open>jsdate\<close>.
\<close>

record thought =
  uuid :: "string jsprop"
  createdAt :: "jsdate jsprop"
  updatedAt :: "jsdate jsprop"
  automaticThought :: string
  alternativeThought :: string
  cognitiveDistortions :: "(string \<times> bool) option list"

text \<open>
  What \<open>JSON.parse\<close> returns where it does not throw. The module only ever writes
  serialised objects, so of the other JSON values only \<open>null\<close> is modelled, which is
  also what a missing key reads as.
\<close>

datatype jsvalue = Null | Obj thought

text \<open>What \<open>stringify\<close> (json-stringify-safe) can do: throw, return undefined, return a string.\<close>

datatype stringified = StringifyThrows | Undefined | Str string

datatype error = StorageError | SyntaxError | TypeError

text \<open>
  The libraries and the environment the module calls: \<open>stringify\<close>, \<open>JSON.parse\<close>
  (\<open>None\<close> when it throws a SyntaxError), and the offset in milliseconds of local time from
  UTC at a given instant, which \<open>Date.getMinutes\<close> depends on.
\<close>

record host =
  stringify :: "thought \<Rightarrow> stringified"
  JSON_parse :: "string \<Rightarrow> jsvalue option"
  tzOffset :: "int \<Rightarrow> int"

subsection \<open>AsyncStorage\<close>

text \<open>
  The storage primitive is an ordered list of key-value pairs; the order is the order in
  which \<open>getAllKeys\<close> lists the keys. Each call of the primitive may reject: \<open>faults\<close> says
  which kinds of call do.
\<close>

type_synonym store = "(string \<times> string) list"

datatype storage_op = GetItem | SetItem | RemoveItem | GetAllKeys | MultiGet | MultiRemove

type_synonym faults = "storage_op \<Rightarrow> bool"

definition no_faults :: faults where
  "no_faults = (\<lambda>_. False)"

text \<open>The storage in which every \<open>setItem\<close> rejects (a full disk, say) and nothing else does.\<close>

definition setItemRejects :: faults where
  "setItemRejects op = (op = SetItem)"

text \<open>\<open>setIsExistingUser\<close> keeps its flag in the same storage, outside the thought keys.\<close>

definition EXISTING_USER_KEY :: string where
  "EXISTING_USER_KEY = ''@Quirk:existing-user''"

definition getItem :: "store \<Rightarrow> string \<Rightarrow> string option" where
  "getItem st k = map_of st k"

fun setItem :: "store \<Rightarrow> string \<Rightarrow> string \<Rightarrow> store" where
  "setItem [] k v = [(k, v)]"
| "setItem ((k', v') # st) k v = (if k' = k then (k, v) # st else (k', v') # setItem st k v)"

definition removeItem :: "store \<Rightarrow> string \<Rightarrow> store" where
  "removeItem st k = filter (\<lambda>kv. fst kv \<noteq> k) st"

definition getAllKeys :: "store \<Rightarrow> string list" where
  "getAllKeys st = map fst st"

definition multiGet :: "store \<Rightarrow> string list \<Rightarrow> (string \<times> string option) list" where
  "multiGet st ks = map (\<lambda>k. (k, map_of st k)) ks"

definition multiRemove :: "store \<Rightarrow> string list \<Rightarrow> store" where
  "multiRemove st ks = filter (\<lambda>kv. fst kv \<notin> set ks) st"


subsection \<open>Strings\<close>

definition startsWith :: "string \<Rightarrow> string \<Rightarrow> bool" where
  "startsWith s p = (take (length p) s = p)"

text \<open>
  \<open>s.replace(pat, rep)\<close> with a string pattern replaces the first occurrence of \<open>pat\<close>
  in \<open>s\<close>, and nothing when there is none. (The replacement strings of this module hold
  no \<open>$\<close>, so the replacement is taken literally.)
\<close>

fun replace :: "string \<Rightarrow> string \<Rightarrow> string \<Rightarrow> string" where
  "replace [] pat rep = (if pat = [] then rep else [])"
| "replace (c # cs) pat rep =
     (if startsWith (c # cs) pat then rep @ drop (length pat) (c # cs)
      else c # replace cs pat rep)"

subsection \<open>Constants and keys\<close>

definition THOUGHTS_KEY_PREFIX :: string where
  "THOUGHTS_KEY_PREFIX = ''@Quirk:thoughts:''"

definition DELETED_KEY_PREFIX :: string where
  "DELETED_KEY_PREFIX = ''@Quirk:deleted-thoughts:''"

definition EXPIRY_MINUTES :: int where
  "EXPIRY_MINUTES = 7 * 24 * 60"

definition getThoughtKey :: "string \<Rightarrow> string" where
  "getThoughtKey info = THOUGHTS_KEY_PREFIX @ info"

subsection \<open>Saving\<close>

text \<open>
  \<open>saveThought\<close> returns its argument on every path. It writes only when \<open>stringify\<close>
  returned a non-empty string; an exception of \<open>stringify\<close> or a rejected \<open>setItem\<close> is
  caught and logged. When the record's \<open>uuid\<close> reads as undefined, the key handed to
  \<open>setItem\<close> is not a string, which the primitive rejects.
\<close>

definition saveThought :: "host \<Rightarrow> faults \<Rightarrow> thought \<Rightarrow> store \<Rightarrow> store \<times> thought" where
  "saveThought h f saveableThought st =
     (case stringify h saveableThought of
        StringifyThrows \<Rightarrow> (st, saveableThought)
      | Undefined \<Rightarrow> (st, saveableThought)
      | Str thoughtString \<Rightarrow>
          if thoughtString = [] then (st, saveableThought)
          else (case readProp (uuid saveableThought) of
                  None \<Rightarrow> (st, saveableThought)
                | Some key \<Rightarrow>
                    if f SetItem then (st, saveableThought)
                    else (setItem st key thoughtString, saveableThought)))"

text \<open>
  In an object literal \<open>{ p: d, ...thought }\<close> the spread comes last, so a property that
  \<open>thought\<close> has wins over the default \<open>d\<close>, also when it holds \<open>undefined\<close>.
\<close>

definition spread :: "'a \<Rightarrow> 'a jsprop \<Rightarrow> 'a jsprop" where
  "spread d p = (case p of Absent \<Rightarrow> Has d | Undef \<Rightarrow> Undef | Has x \<Rightarrow> Has x)"

text \<open>
  \<open>now\<close> is what \<open>new Date()\<close> returns during the call and \<open>fresh\<close> what \<open>uuidv4()\<close>
  returns. (The source's flag \<open>isSavedThought\<close> is true for the record whose \<open>uuid\<close>
  reads as undefined.)
  \<open>saveableThought_of\<close> is the value of the source's variable \<open>saveableThought\<close> when
  \<open>saveThought\<close> is called.
\<close>

definition saveableThought_of :: "int \<Rightarrow> string \<Rightarrow> thought \<Rightarrow> thought" where
  "saveableThought_of now fresh thought =
     (let isSavedThought = (readProp (uuid thought) = None) in
      if isSavedThought then
        thought\<lparr>uuid := spread (getThoughtKey fresh) (uuid thought),
                createdAt := spread (Date now) (createdAt thought),
                updatedAt := spread (Date now) (updatedAt thought)\<rparr>
      else thought\<lparr>updatedAt := Has (Date now)\<rparr>)"

definition saveExercise :: "host \<Rightarrow> faults \<Rightarrow> int \<Rightarrow> string \<Rightarrow> thought \<Rightarrow> store \<Rightarrow> store \<times> thought" where
  "saveExercise h f now fresh thought st = saveThought h f (saveableThought_of now fresh thought) st"

subsection \<open>Archiving, deleting, restoring\<close>

text \<open>
  \<open>JSON.parse(await AsyncStorage.getItem(uuid))\<close>: a missing key reads as \<open>null\<close>, which
  \<open>JSON.parse\<close> turns into the value \<open>null\<close>.
\<close>

definition parseItem :: "host \<Rightarrow> string option \<Rightarrow> jsvalue option" where
  "parseItem h item = (case item of None \<Rightarrow> Some Null | Some s \<Rightarrow> JSON_parse h s)"

text \<open>
  Both operations run inside one \<open>try\<close>: a rejected \<open>getItem\<close>, a SyntaxError of
  \<open>JSON.parse\<close>, the TypeError of assigning to a property of \<open>null\<close> and a rejected
  \<open>removeItem\<close> all end the operation with the store as it is at that point.
\<close>

definition deleteExercise :: "host \<Rightarrow> faults \<Rightarrow> int \<Rightarrow> string \<Rightarrow> store \<Rightarrow> store" where
  "deleteExercise h f now key st =
     (if f GetItem then st
      else case parseItem h (getItem st key) of
             None \<Rightarrow> st
           | Some Null \<Rightarrow> st
           | Some (Obj parsed) \<Rightarrow>
               (let thought = parsed\<lparr>updatedAt := Has (Date now)\<rparr> in
                if startsWith key THOUGHTS_KEY_PREFIX then
                  (let thought' = thought\<lparr>uuid := Has (replace key THOUGHTS_KEY_PREFIX DELETED_KEY_PREFIX)\<rparr>;
                       st' = fst (saveThought h f thought' st)
                   in if f RemoveItem then st' else removeItem st' key)
                else if f RemoveItem then st else removeItem st key))"

definition restoreExercise :: "host \<Rightarrow> faults \<Rightarrow> int \<Rightarrow> string \<Rightarrow> store \<Rightarrow> store" where
  "restoreExercise h f now key st =
     (if f GetItem then st
      else case parseItem h (getItem st key) of
             None \<Rightarrow> st
           | Some Null \<Rightarrow> st
           | Some (Obj parsed) \<Rightarrow>
               (let thought = parsed\<lparr>updatedAt := Has (Date now),
                                     uuid := Has (replace key DELETED_KEY_PREFIX THOUGHTS_KEY_PREFIX)\<rparr>;
                    st' = fst (saveThought h f thought st)
                in if f RemoveItem then st' else removeItem st' key))"

subsection \<open>Loading\<close>

record StoredThoughts =
  savedThoughts :: "jsvalue list"
  deletedThoughts :: "jsvalue list"

definition emptyThoughts :: StoredThoughts where
  "emptyThoughts = \<lparr>savedThoughts = [], deletedThoughts = []\<rparr>"

text \<open>\<open>new Date(x)\<close> for a time stamp property: the invalid date when it reads as undefined.\<close>

definition newDate :: "jsdate jsprop \<Rightarrow> jsdate" where
  "newDate field = (case readProp field of None \<Rightarrow> InvalidDate | Some d \<Rightarrow> d)"

text \<open>\<open>getMinutes\<close>: the minute of the hour in local time, NaN (\<open>None\<close>) for the invalid date.\<close>

definition getMinutes :: "host \<Rightarrow> jsdate \<Rightarrow> int option" where
  "getMinutes h d =
     (case d of InvalidDate \<Rightarrow> None
      | Date ms \<Rightarrow> Some (((ms + tzOffset h ms) div 60000) mod 60))"

text \<open>A comparison with NaN is false.\<close>

definition isExpired :: "host \<Rightarrow> int \<Rightarrow> jsdate \<Rightarrow> bool" where
  "isExpired h now d =
     (case getMinutes h (Date now) of
        None \<Rightarrow> False
      | Some m \<Rightarrow> (case getMinutes h d of None \<Rightarrow> False | Some m' \<Rightarrow> m - m' > EXPIRY_MINUTES))"

text \<open>\<open>rows.filter(n => n && n[1])\<close>: the rows whose value is neither null nor empty.\<close>

fun truthyRows :: "(string \<times> string option) list \<Rightarrow> (string \<times> string) list" where
  "truthyRows [] = []"
| "truthyRows ((k, None) # rows) = truthyRows rows"
| "truthyRows ((k, Some v) # rows) = (if v = [] then truthyRows rows else (k, v) # truthyRows rows)"

text \<open>
  The \<open>forEach\<close> loop, with the result and the list of outdated keys it appends to. A
  SyntaxError of \<open>JSON.parse\<close>, or the TypeError of reading \<open>updatedAt\<close> of \<open>null\<close>,
  leaves the loop.
\<close>

fun forEachRow :: "host \<Rightarrow> int \<Rightarrow> (string \<times> string) list \<Rightarrow> StoredThoughts \<times> string list
    \<Rightarrow> error + StoredThoughts \<times> string list" where
  "forEachRow h now [] acc = Inr acc"
| "forEachRow h now ((key, x1) # rows) (result, outdatedDeletedThoughts) =
     (case JSON_parse h x1 of
        None \<Rightarrow> Inl SyntaxError
      | Some val \<Rightarrow>
          if startsWith key THOUGHTS_KEY_PREFIX then
            forEachRow h now rows
              (result\<lparr>savedThoughts := savedThoughts result @ [val]\<rparr>, outdatedDeletedThoughts)
          else (case val of
                  Null \<Rightarrow> Inl TypeError
                | Obj t \<Rightarrow>
                    if isExpired h now (newDate (updatedAt t)) then
                      forEachRow h now rows (result, outdatedDeletedThoughts @ [key])
                    else forEachRow h now rows
                      (result\<lparr>deletedThoughts := deletedThoughts result @ [val]\<rparr>,
                       outdatedDeletedThoughts)))"

text \<open>
  The body of \<open>getExercises\<close> from the rows that \<open>multiGet\<close> resolved to: the result and
  the keys handed to \<open>multiRemove\<close>, or the exception that reaches the \<open>catch\<close>.
\<close>

definition processRows :: "host \<Rightarrow> int \<Rightarrow> (string \<times> string option) list
    \<Rightarrow> error + StoredThoughts \<times> string list" where
  "processRows h now rows = forEachRow h now (truthyRows rows) (emptyThoughts, [])"

text \<open>What \<open>getExercises\<close> resolves to once \<open>multiGet\<close> has resolved to \<open>rows\<close>.\<close>

definition loadRows :: "host \<Rightarrow> int \<Rightarrow> (string \<times> string option) list \<Rightarrow> StoredThoughts" where
  "loadRows h now rows =
     (case processRows h now rows of Inl e \<Rightarrow> emptyThoughts | Inr (result, outdated) \<Rightarrow> result)"

definition thoughtKeys :: "store \<Rightarrow> string list" where
  "thoughtKeys st =
     filter (\<lambda>key. startsWith key THOUGHTS_KEY_PREFIX \<or> startsWith key DELETED_KEY_PREFIX)
       (getAllKeys st)"

definition getExercises_try :: "host \<Rightarrow> faults \<Rightarrow> int \<Rightarrow> store
    \<Rightarrow> error + StoredThoughts \<times> string list" where
  "getExercises_try h f now st =
     (if f GetAllKeys then Inl StorageError
      else if f MultiGet then Inl StorageError
      else processRows h now (multiGet st (thoughtKeys st)))"

text \<open>
  \<open>getExercises\<close>: the store after the call (the \<open>multiRemove\<close> is not awaited; its
  effect, when it does not reject, is part of the store returned here) and the value the
  promise resolves to.
\<close>

definition getExercises :: "host \<Rightarrow> faults \<Rightarrow> int \<Rightarrow> store \<Rightarrow> store \<times> StoredThoughts" where
  "getExercises h f now st =
     (case getExercises_try h f now st of
        Inl e \<Rightarrow> (st, emptyThoughts)
      | Inr (result, outdated) \<Rightarrow>
          ((if f MultiRemove then st else multiRemove st outdated), result))"

subsection \<open>A codec given by a table\<close>

text \<open>
  To run the operations on a concrete store, the codec is given by a finite table of
  strings and the values they parse to: \<open>JSON.parse\<close> throws on a string that is not in
  the table, and \<open>stringify\<close> returns undefined for a record that has no string.
  Local time is UTC.
\<close>

definition tableHost :: "(string \<times> jsvalue) list \<Rightarrow> host" where
  "tableHost tbl =
     \<lparr>stringify = (\<lambda>t. case find (\<lambda>sv. snd sv = Obj t) tbl of
                          None \<Rightarrow> Undefined | Some sv \<Rightarrow> Str (fst sv)),
      JSON_parse = map_of tbl,
      tzOffset = (\<lambda>_. 0)\<rparr>"

subsection \<open>What a load returns, row by row\<close>

text \<open>
  These functions describe the result of the loop of \<open>getExercises\<close> directly. A row is
  \<open>parsable\<close> when the loop gets past it: its value parses, and parses to an object unless
  the key is in the ACTIVE namespace (where the parsed value is pushed without being looked
  at). \<open>savedOf\<close>, \<open>deletedOf\<close> and \<open>outdatedOf\<close> are the parsed values of the ACTIVE rows,
  of the other rows that are not expired, and the keys of the other rows that are.
\<close>

definition parsable :: "host \<Rightarrow> string \<times> string \<Rightarrow> bool" where
  "parsable h row =
     (case JSON_parse h (snd row) of
        None \<Rightarrow> False
      | Some Null \<Rightarrow> startsWith (fst row) THOUGHTS_KEY_PREFIX
      | Some (Obj t) \<Rightarrow> True)"

definition savedOf :: "host \<Rightarrow> (string \<times> string) list \<Rightarrow> jsvalue list" where
  "savedOf h rows =
     concat (map (\<lambda>row. if startsWith (fst row) THOUGHTS_KEY_PREFIX
                         then (case JSON_parse h (snd row) of None \<Rightarrow> [] | Some x \<Rightarrow> [x])
                         else []) rows)"

definition deletedOf :: "host \<Rightarrow> int \<Rightarrow> (string \<times> string) list \<Rightarrow> jsvalue list" where
  "deletedOf h now rows =
     concat (map (\<lambda>row. if startsWith (fst row) THOUGHTS_KEY_PREFIX then []
                         else (case JSON_parse h (snd row) of
                                 Some (Obj t) \<Rightarrow>
                                   if isExpired h now (newDate (updatedAt t)) then [] else [Obj t]
                               | _ \<Rightarrow> [])) rows)"

definition outdatedOf :: "host \<Rightarrow> int \<Rightarrow> (string \<times> string) list \<Rightarrow> string list" where
  "outdatedOf h now rows =
     concat (map (\<lambda>row. if startsWith (fst row) THOUGHTS_KEY_PREFIX then []
                         else (case JSON_parse h (snd row) of
                                 Some (Obj t) \<Rightarrow>
                                   if isExpired h now (newDate (updatedAt t)) then [fst row] else []
                               | _ \<Rightarrow> [])) rows)"

subsection \<open>The key invariant\<close>

text \<open>
  Every value stored under a key of one of the two thought namespaces parses to an object
  whose \<open>uuid\<close> is that key. Other keys of the storage (the existing-user flag, the
  settings) are not concerned.
\<close>

definition uuidMatchesKey :: "host \<Rightarrow> store \<Rightarrow> bool" where
  "uuidMatchesKey h st =
     list_all (\<lambda>kv. case JSON_parse h (snd kv) of
                      None \<Rightarrow> False
                    | Some Null \<Rightarrow> False
                    | Some (Obj t) \<Rightarrow> uuid t = Has (fst kv))
       (filter (\<lambda>kv. startsWith (fst kv) THOUGHTS_KEY_PREFIX
                       \<or> startsWith (fst kv) DELETED_KEY_PREFIX) st)"

subsection \<open>Example data\<close>

definition exampleThought :: "string jsprop \<Rightarrow> jsdate jsprop \<Rightarrow> jsdate jsprop \<Rightarrow> thought" where
  "exampleThought k c u =
     \<lparr>uuid = k, createdAt = c, updatedAt = u, automaticThought = ''auto'',
      alternativeThought = ''alt'', cognitiveDistortions = [Some (''labeling'', True), None]\<rparr>"

text \<open>
  A codec that knows five strings. \<open>''W''\<close> is a record archived 10081 minutes (a week
  and a minute) before the instant 1700000000000.
\<close>

definition exampleHost :: host where
  "exampleHost = tableHost
     [(''A'', Obj (exampleThought (Has (getThoughtKey ''a'')) (Has (Date 5)) (Has (Date 5)))),
      (''B'', Obj (exampleThought (Has (DELETED_KEY_PREFIX @ ''a'')) (Has (Date 5)) (Has (Date 7)))),
      (''C'', Obj (exampleThought (Has (getThoughtKey ''a'')) (Has (Date 5)) (Has (Date 9)))),
      (''N'', Obj (exampleThought (Has (getThoughtKey ''n'')) (Has (Date 7)) (Has (Date 7)))),
      (''W'', Obj (exampleThought (Has (DELETED_KEY_PREFIX @ ''w''))
                    (Has (Date 1699000000000)) (Has (Date 1699395140000))))]"

section \<open>Properties\<close>

subsection \<open>Unfolding the model on concrete data\<close>

lemmas example_defs = exampleThought_def exampleHost_def tableHost_def getThoughtKey_def
  THOUGHTS_KEY_PREFIX_def DELETED_KEY_PREFIX_def no_faults_def

lemmas store_defs = getItem_def removeItem_def getAllKeys_def multiGet_def multiRemove_def

lemmas load_defs = getExercises_def getExercises_try_def processRows_def loadRows_def
  thoughtKeys_def startsWith_def emptyThoughts_def isExpired_def getMinutes_def newDate_def
  readProp_def EXPIRY_MINUTES_def

lemmas change_defs = deleteExercise_def restoreExercise_def saveExercise_def
  saveableThought_of_def saveThought_def parseItem_def spread_def readProp_def startsWith_def

subsection \<open>Strings and the storage primitive\<close>

lemma readProp_simps [simp]:
  "readProp Absent = None" "readProp Undef = None" "readProp (Has x) = Some x"
  by (simp_all add: readProp_def)

lemma startsWith_append: "startsWith (p @ s) p"
  by (simp add: startsWith_def)

lemma replace_prefix: "startsWith s p \<Longrightarrow> replace s p r = r @ drop (length p) s"
  by (cases s) (auto simp: startsWith_def)

lemma getItem_setItem: "getItem (setItem st k v) k' = (if k' = k then Some v else getItem st k')"
  by (induction st) (auto simp: getItem_def)

lemma getItem_removeItem: "getItem (removeItem st k) k' = (if k' = k then None else getItem st k')"
  by (induction st) (auto simp: getItem_def removeItem_def)

subsection \<open>The expiry test\<close>

lemma getMinutes_range:
  "getMinutes h d = Some m \<Longrightarrow> 0 \<le> m \<and> m \<le> 59"
  by (auto simp: getMinutes_def split: jsdate.splits)

lemma isExpired_False: "isExpired h now d = False"
proof (cases "getMinutes h d")
  case None
  then show ?thesis by (simp add: isExpired_def split: option.splits)
next
  case (Some m')
  show ?thesis
  proof (cases "getMinutes h (Date now)")
    case None
    then show ?thesis by (simp add: isExpired_def)
  next
    case (Some m)
    from getMinutes_range[OF Some] getMinutes_range[OF \<open>getMinutes h d = Some m'\<close>]
    have "m - m' \<le> 59" by arith
    then show ?thesis
      using Some \<open>getMinutes h d = Some m'\<close> by (simp add: isExpired_def EXPIRY_MINUTES_def)
  qed
qed

lemma forEachRow_outdated:
  "forEachRow h now rows (result, outdated) = Inr (result', outdated') \<Longrightarrow> outdated' = outdated"
proof (induction rows arbitrary: result outdated)
  case Nil
  then show ?case by simp
next
  case (Cons row rows)
  obtain key x1 where row: "row = (key, x1)" by (cases row)
  from Cons.prems show ?case unfolding row
    by (auto simp: isExpired_False split: option.splits if_splits jsvalue.splits dest: Cons.IH)
qed

lemma getExercises_store: "fst (getExercises h f now st) = st"
proof (cases "getExercises_try h f now st")
  case (Inl e)
  then show ?thesis by (simp add: getExercises_def)
next
  case (Inr p)
  obtain result outdated where p: "p = (result, outdated)" by (cases p)
  from Inr have "processRows h now (multiGet st (thoughtKeys st)) = Inr (result, outdated)"
    by (simp add: getExercises_try_def p split: if_splits)
  then have "outdated = []"
    unfolding processRows_def by (rule forEachRow_outdated)
  with Inr p show ?thesis by (simp add: getExercises_def multiRemove_def)
qed

text \<open>
  C10. \<open>isExpired\<close> subtracts two minute-of-hour values, so the difference is at most 59,
  which is below \<open>EXPIRY_MINUTES\<close>; it is false for every clock, time zone and date.
  Hence no load hands a key to \<open>multiRemove\<close>, and the store after a load is the store
  before it.
\<close>

theorem isExpired_never_true:
  "isExpired h now d = False
   \<and> (case getMinutes h (Date now) of
        None \<Rightarrow> True
      | Some m \<Rightarrow> (case getMinutes h d of
                     None \<Rightarrow> True
                   | Some m' \<Rightarrow> m - m' \<le> 59 \<and> 59 < EXPIRY_MINUTES))
   \<and> fst (getExercises h f now st) = st
   \<and> (case getExercises_try h f now st of Inl e \<Rightarrow> True | Inr p \<Rightarrow> snd p = [])"
proof -
  have a: "isExpired h now d = False" by (rule isExpired_False)
  have b: "case getMinutes h (Date now) of
        None \<Rightarrow> True
      | Some m \<Rightarrow> (case getMinutes h d of
                     None \<Rightarrow> True
                   | Some m' \<Rightarrow> m - m' \<le> 59 \<and> 59 < EXPIRY_MINUTES)"
    by (auto simp: EXPIRY_MINUTES_def split: option.splits dest!: getMinutes_range)
  have c: "fst (getExercises h f now st) = st" by (rule getExercises_store)
  have d: "case getExercises_try h f now st of Inl e \<Rightarrow> True | Inr p \<Rightarrow> snd p = []"
    by (auto simp: getExercises_try_def processRows_def split: sum.splits if_splits
             dest: forEachRow_outdated)
  from a b c d show ?thesis by blast
qed

text \<open>
  C1. An archived record whose \<open>updatedAt\<close> lies 10081 minutes before the load, one
  minute beyond the retention threshold of 10080 minutes, is still returned among the
  deleted thoughts, and its key stays in the store: the load does not exclude it and does
  not schedule it for removal.
\<close>

theorem getExercises_keeps_week_old_archive:
  "(1700000000000 - 1699395140000) div 60000 > EXPIRY_MINUTES
   \<and> getExercises exampleHost no_faults 1700000000000 [(DELETED_KEY_PREFIX @ ''w'', ''W'')]
     = ([(DELETED_KEY_PREFIX @ ''w'', ''W'')],
        \<lparr>savedThoughts = [],
         deletedThoughts = [Obj (exampleThought (Has (DELETED_KEY_PREFIX @ ''w''))
                    (Has (Date 1699000000000)) (Has (Date 1699395140000)))]\<rparr>)"
  by (simp add: example_defs store_defs load_defs)

text \<open>
  C2. Archiving the record stored under an ACTIVE key while \<open>setItem\<close> rejects:
  \<open>saveThought\<close> swallows the rejection and resolves, so the \<open>then\<close> removes the old key
  all the same, and the record is under neither key afterwards.
\<close>

theorem deleteExercise_failed_write_loses_record:
  "getItem [(getThoughtKey ''a'', ''A'')] (getThoughtKey ''a'') = Some ''A''
   \<and> stringify exampleHost
        (exampleThought (Has (DELETED_KEY_PREFIX @ ''a'')) (Has (Date 5)) (Has (Date 7))) = Str ''B''
   \<and> deleteExercise exampleHost setItemRejects 7 (getThoughtKey ''a'')
        [(getThoughtKey ''a'', ''A'')] = []
   \<and> getItem (deleteExercise exampleHost setItemRejects 7 (getThoughtKey ''a'')
                [(getThoughtKey ''a'', ''A'')]) (getThoughtKey ''a'') = None
   \<and> getItem (deleteExercise exampleHost setItemRejects 7 (getThoughtKey ''a'')
                [(getThoughtKey ''a'', ''A'')]) (DELETED_KEY_PREFIX @ ''a'') = None"
  by (simp add: example_defs store_defs change_defs setItemRejects_def)

subsection \<open>The loop of the load\<close>

lemma forEachRow_ok:
  "list_all (parsable h) rows \<Longrightarrow>
   forEachRow h now rows (result, outdated) =
     Inr (\<lparr>savedThoughts = savedThoughts result @ savedOf h rows,
           deletedThoughts = deletedThoughts result @ deletedOf h now rows\<rparr>,
          outdated @ outdatedOf h now rows)"
proof (induction rows arbitrary: result outdated)
  case Nil
  then show ?case by (simp add: savedOf_def deletedOf_def outdatedOf_def)
next
  case (Cons row rows)
  obtain key x1 where row: "row = (key, x1)" by (cases row)
  from Cons.prems have p: "parsable h (key, x1)" and ps: "list_all (parsable h) rows"
    by (simp_all add: row)
  note IH = Cons.IH[OF ps]
  show ?case
    using p unfolding row
    by (auto simp: IH parsable_def savedOf_def deletedOf_def outdatedOf_def
             split: option.splits jsvalue.splits)
qed

lemma forEachRow_throws:
  "\<not> list_all (parsable h) rows \<Longrightarrow> \<exists>e. forEachRow h now rows acc = Inl e"
proof (induction rows arbitrary: acc)
  case Nil
  then show ?case by simp
next
  case (Cons row rows)
  obtain key x1 where row: "row = (key, x1)" by (cases row)
  obtain result outdated where acc: "acc = (result, outdated)" by (cases acc)
  show ?case
  proof (cases "parsable h (key, x1)")
    case True
    with Cons.prems have "\<not> list_all (parsable h) rows" by (simp add: row)
    from Cons.IH[OF this] show ?thesis
      using True unfolding row acc
      by (auto simp: parsable_def split: option.splits jsvalue.splits)
  next
    case False
    then show ?thesis unfolding row acc
      by (auto simp: parsable_def split: option.splits jsvalue.splits)
  qed
qed

lemma loadRows_eq:
  "loadRows h now rows =
     (if list_all (parsable h) (truthyRows rows)
      then \<lparr>savedThoughts = savedOf h (truthyRows rows),
            deletedThoughts = deletedOf h now (truthyRows rows)\<rparr>
      else emptyThoughts)"
proof (cases "list_all (parsable h) (truthyRows rows)")
  case True
  then show ?thesis
    by (simp add: loadRows_def processRows_def forEachRow_ok emptyThoughts_def)
next
  case False
  from forEachRow_throws[OF this] obtain e where
    "forEachRow h now (truthyRows rows) (emptyThoughts, []) = Inl e" by blast
  with False show ?thesis by (simp add: loadRows_def processRows_def)
qed

lemma truthyRows_set:
  "set (truthyRows rows) = {(k, v). (k, Some v) \<in> set rows \<and> v \<noteq> []}"
  by (induction rows rule: truthyRows.induct) auto

lemma processRows_Inr:
  assumes "processRows h now rows = Inr (result, outdated)"
  shows "result = \<lparr>savedThoughts = savedOf h (truthyRows rows),
                   deletedThoughts = deletedOf h now (truthyRows rows)\<rparr>
         \<and> outdated = outdatedOf h now (truthyRows rows)
         \<and> list_all (parsable h) (truthyRows rows)"
proof (cases "list_all (parsable h) (truthyRows rows)")
  case True
  with assms show ?thesis
    by (simp add: processRows_def forEachRow_ok emptyThoughts_def)
next
  case False
  from forEachRow_throws[OF this] obtain e where
    "forEachRow h now (truthyRows rows) (emptyThoughts, []) = Inl e" by blast
  with assms show ?thesis by (simp add: processRows_def)
qed

lemma savedOf_mem:
  "(k, v) \<in> set rows \<Longrightarrow> startsWith k THOUGHTS_KEY_PREFIX \<Longrightarrow> JSON_parse h v = Some x
   \<Longrightarrow> x \<in> set (savedOf h rows)"
  by (force simp: savedOf_def)

lemma deletedOf_mem:
  "(k, v) \<in> set rows \<Longrightarrow> \<not> startsWith k THOUGHTS_KEY_PREFIX \<Longrightarrow> JSON_parse h v = Some (Obj t)
   \<Longrightarrow> Obj t \<in> set (deletedOf h now rows) \<or> k \<in> set (outdatedOf h now rows)"
  by (force simp: deletedOf_def outdatedOf_def)

lemma stored_row:
  assumes "getItem st k = Some v"
    and "startsWith k THOUGHTS_KEY_PREFIX \<or> startsWith k DELETED_KEY_PREFIX"
  shows "(k, Some v) \<in> set (multiGet st (thoughtKeys st))"
proof -
  from assms(1) have "(k, v) \<in> set st" by (simp add: getItem_def map_of_SomeD)
  then have "k \<in> set (getAllKeys st)" by (force simp: getAllKeys_def)
  with assms(2) have "k \<in> set (thoughtKeys st)" by (simp add: thoughtKeys_def)
  with assms(1) show ?thesis by (force simp: multiGet_def getItem_def)
qed

lemma deleted_not_active: "\<not> startsWith (DELETED_KEY_PREFIX @ s) THOUGHTS_KEY_PREFIX"
  by (simp add: startsWith_def DELETED_KEY_PREFIX_def THOUGHTS_KEY_PREFIX_def)

lemma active_not_deleted:
  assumes "startsWith k THOUGHTS_KEY_PREFIX" shows "\<not> startsWith k DELETED_KEY_PREFIX"
proof -
  from assms have "k = THOUGHTS_KEY_PREFIX @ drop (length THOUGHTS_KEY_PREFIX) k"
    by (metis append_take_drop_id startsWith_def)
  then obtain s where "k = THOUGHTS_KEY_PREFIX @ s" ..
  then show ?thesis
    by (simp add: startsWith_def DELETED_KEY_PREFIX_def THOUGHTS_KEY_PREFIX_def)
qed

lemma getExercises_loadRows:
  "snd (getExercises h f now st) =
     (if f GetAllKeys \<or> f MultiGet then emptyThoughts
      else loadRows h now (multiGet st (thoughtKeys st)))"
  by (auto simp: getExercises_def getExercises_try_def loadRows_def split: sum.splits)

text \<open>
  C3, as the code has it. A load never raises: \<open>getExercises\<close> is a total function
  whose \<open>catch\<close> turns every exception into the empty result. Rows whose value is missing,
  null or empty are dropped one by one. When every remaining row is parsable, the load
  returns exactly the parsed records, the ACTIVE ones as saved thoughts and the others,
  unless expired, as deleted thoughts. When some remaining value does not parse, the
  exception leaves the loop and the load returns no saved and no deleted thoughts at all.
\<close>

theorem loadRows_corrupt_data:
  "snd (getExercises h f now st) =
     (if f GetAllKeys \<or> f MultiGet then emptyThoughts
      else loadRows h now (multiGet st (thoughtKeys st)))
   \<and> set (truthyRows rows) = {(k, v). (k, Some v) \<in> set rows \<and> v \<noteq> []}
   \<and> loadRows h now rows =
     (if list_all (parsable h) (truthyRows rows)
      then \<lparr>savedThoughts = savedOf h (truthyRows rows),
            deletedThoughts = deletedOf h now (truthyRows rows)\<rparr>
      else emptyThoughts)"
  using getExercises_loadRows truthyRows_set loadRows_eq by blast

text \<open>
  C3 as the specification words it fails on a store with one valid record and one
  unparsable value: the load returns nothing, not the valid record.
\<close>

theorem getExercises_unparsable_counterexample:
  "JSON_parse exampleHost ''A''
     = Some (Obj (exampleThought (Has (getThoughtKey ''a'')) (Has (Date 5)) (Has (Date 5))))
   \<and> JSON_parse exampleHost ''{oops'' = None
   \<and> snd (getExercises exampleHost no_faults 9
        [(getThoughtKey ''a'', ''A''), (getThoughtKey ''b'', ''{oops'')])
     = \<lparr>savedThoughts = [], deletedThoughts = []\<rparr>"
  by (simp add: example_defs store_defs load_defs)

text \<open>
  C4, as the code has it. The load does not de-duplicate. When it succeeds and one
  identifier suffix is stored under both the ACTIVE and the ARCHIVED key with non-empty
  values, both values parse, the ACTIVE copy is among the saved thoughts and the ARCHIVED
  copy is among the deleted thoughts (or its key among the outdated ones), whatever the
  two \<open>updatedAt\<close> are.
\<close>

theorem getExercises_returns_both_copies:
  assumes "getExercises_try h f now st = Inr (result, outdated)"
    and "getItem st (THOUGHTS_KEY_PREFIX @ s) = Some v" and "v \<noteq> []"
    and "getItem st (DELETED_KEY_PREFIX @ s) = Some v'" and "v' \<noteq> []"
  shows "snd (getExercises h f now st) = result
         \<and> (\<exists>x t'. JSON_parse h v = Some x \<and> JSON_parse h v' = Some (Obj t')
               \<and> x \<in> set (savedThoughts result)
               \<and> (Obj t' \<in> set (deletedThoughts result)
                  \<or> DELETED_KEY_PREFIX @ s \<in> set outdated))"
proof -
  let ?rows = "multiGet st (thoughtKeys st)"
  from assms(1) have pr: "processRows h now ?rows = Inr (result, outdated)"
    by (simp add: getExercises_try_def split: if_splits)
  note R = processRows_Inr[OF pr]
  from assms(1) have res: "snd (getExercises h f now st) = result"
    by (simp add: getExercises_def)
  have a: "(THOUGHTS_KEY_PREFIX @ s, v) \<in> set (truthyRows ?rows)"
    using stored_row[OF assms(2)] assms(3) by (simp add: truthyRows_set startsWith_append)
  have d: "(DELETED_KEY_PREFIX @ s, v') \<in> set (truthyRows ?rows)"
    using stored_row[OF assms(4)] assms(5) by (simp add: truthyRows_set startsWith_append)
  from R a have "parsable h (THOUGHTS_KEY_PREFIX @ s, v)" by (simp add: list_all_iff)
  then obtain x where x: "JSON_parse h v = Some x"
    by (auto simp: parsable_def split: option.splits)
  from R d have "parsable h (DELETED_KEY_PREFIX @ s, v')" by (simp add: list_all_iff)
  then obtain t' where t': "JSON_parse h v' = Some (Obj t')"
    by (auto simp: parsable_def deleted_not_active split: option.splits jsvalue.splits)
  have "x \<in> set (savedThoughts result)"
    using R savedOf_mem[OF a startsWith_append x] by simp
  moreover have "Obj t' \<in> set (deletedThoughts result) \<or> DELETED_KEY_PREFIX @ s \<in> set outdated"
    using R deletedOf_mem[OF d deleted_not_active t', of now] by simp
  ultimately show ?thesis using res x t' by blast
qed

theorem getExercises_returns_both_copies_witness:
  "getExercises_try exampleHost no_faults 9
      [(THOUGHTS_KEY_PREFIX @ ''a'', ''A''), (DELETED_KEY_PREFIX @ ''a'', ''B'')]
     = Inr (\<lparr>savedThoughts = [Obj (exampleThought (Has (getThoughtKey ''a'')) (Has (Date 5)) (Has (Date 5)))],
        deletedThoughts = [Obj (exampleThought (Has (DELETED_KEY_PREFIX @ ''a'')) (Has (Date 5)) (Has (Date 7)))]\<rparr>, [])
   \<and> (\<exists>x t'. JSON_parse exampleHost ''A'' = Some x \<and> JSON_parse exampleHost ''B'' = Some (Obj t')
         \<and> x \<in> set [Obj (exampleThought (Has (getThoughtKey ''a'')) (Has (Date 5)) (Has (Date 5)))]
         \<and> Obj t' \<in> set [Obj (exampleThought (Has (DELETED_KEY_PREFIX @ ''a'')) (Has (Date 5)) (Has (Date 7)))])"
proof -
  let ?st = "[(THOUGHTS_KEY_PREFIX @ ''a'', ''A''), (DELETED_KEY_PREFIX @ ''a'', ''B'')]"
  let ?res = "\<lparr>savedThoughts = [Obj (exampleThought (Has (getThoughtKey ''a'')) (Has (Date 5)) (Has (Date 5)))],
        deletedThoughts = [Obj (exampleThought (Has (DELETED_KEY_PREFIX @ ''a'')) (Has (Date 5)) (Has (Date 7)))]\<rparr>"
  have h1: "getExercises_try exampleHost no_faults 9 ?st = Inr (?res, [])"
    by (simp add: example_defs store_defs load_defs)
  have h2: "getItem ?st (THOUGHTS_KEY_PREFIX @ ''a'') = Some ''A''"
    by (simp add: example_defs store_defs)
  have h3: "getItem ?st (DELETED_KEY_PREFIX @ ''a'') = Some ''B''"
    by (simp add: example_defs store_defs)
  have h4: "''A'' \<noteq> []" "''B'' \<noteq> []" by simp_all
  from getExercises_returns_both_copies[OF h1 h2 h4(1) h3 h4(2)] h1 show ?thesis by simp
qed

text \<open>
  C4 as the specification words it fails on a store that holds the suffix \<open>a\<close> under
  both keys: the load returns both copies, the older ACTIVE one included.
\<close>

theorem getExercises_both_keys_counterexample:
  "snd (getExercises exampleHost no_faults 9
        [(getThoughtKey ''a'', ''A''), (DELETED_KEY_PREFIX @ ''a'', ''B'')])
     = \<lparr>savedThoughts =
          [Obj (exampleThought (Has (getThoughtKey ''a'')) (Has (Date 5)) (Has (Date 5)))],
        deletedThoughts =
          [Obj (exampleThought (Has (DELETED_KEY_PREFIX @ ''a'')) (Has (Date 5)) (Has (Date 7)))]\<rparr>"
  by (simp add: example_defs store_defs load_defs)

subsection \<open>Archiving and restoring\<close>

text \<open>
  C7. A record stored under an ACTIVE key is archived under the ARCHIVED key with the
  same suffix, and restoring that archived key stores it under the original ACTIVE key
  again, with the ARCHIVED key gone. (The storage does not reject, and the codec encodes
  and decodes the two records written on the way.)
\<close>

theorem archive_then_restore:
  assumes active: "startsWith key THOUGHTS_KEY_PREFIX"
    and stored: "getItem st key = Some v" "JSON_parse h v = Some (Obj t)"
    and archived: "archived = replace key THOUGHTS_KEY_PREFIX DELETED_KEY_PREFIX"
    and enc1: "stringify h (t\<lparr>updatedAt := Has (Date now1), uuid := Has archived\<rparr>) = Str v1" "v1 \<noteq> []"
    and dec1: "JSON_parse h v1 = Some (Obj t1)"
    and enc2: "stringify h (t1\<lparr>updatedAt := Has (Date now2), uuid := Has key\<rparr>) = Str v2" "v2 \<noteq> []"
  shows "archived = DELETED_KEY_PREFIX @ drop (length THOUGHTS_KEY_PREFIX) key
         \<and> getItem (deleteExercise h no_faults now1 key st) archived = Some v1
         \<and> getItem (deleteExercise h no_faults now1 key st) key = None
         \<and> (let st2 = restoreExercise h no_faults now2 archived (deleteExercise h no_faults now1 key st)
            in getItem st2 key = Some v2 \<and> getItem st2 archived = None)"
proof -
  let ?suffix = "drop (length THOUGHTS_KEY_PREFIX) key"
  have key: "key = THOUGHTS_KEY_PREFIX @ ?suffix"
    using active by (metis append_take_drop_id startsWith_def)
  have arch: "archived = DELETED_KEY_PREFIX @ ?suffix"
    using archived replace_prefix[OF active] by simp
  have restored: "replace archived DELETED_KEY_PREFIX THOUGHTS_KEY_PREFIX = key"
    using replace_prefix[of archived DELETED_KEY_PREFIX THOUGHTS_KEY_PREFIX] key
    by (simp add: arch startsWith_append)
  have "startsWith archived DELETED_KEY_PREFIX" by (simp add: arch startsWith_append)
  with active_not_deleted[OF active] have neq: "archived \<noteq> key" by auto
  let ?st1 = "removeItem (setItem st archived v1) key"
  have d: "deleteExercise h no_faults now1 key st = ?st1"
    using active stored enc1 archived
    by (simp add: deleteExercise_def parseItem_def saveThought_def no_faults_def Let_def)
  have g1: "getItem ?st1 archived = Some v1"
    using neq by (simp add: getItem_removeItem getItem_setItem)
  have g1': "getItem ?st1 key = None" by (simp add: getItem_removeItem)
  let ?st2 = "removeItem (setItem ?st1 key v2) archived"
  have r: "restoreExercise h no_faults now2 archived ?st1 = ?st2"
    using g1 dec1 enc2 restored
    by (simp add: restoreExercise_def parseItem_def saveThought_def no_faults_def Let_def)
  have g2: "getItem ?st2 key = Some v2 \<and> getItem ?st2 archived = None"
    using neq by (simp add: getItem_removeItem getItem_setItem)
  from arch d g1 g1' r g2 show ?thesis by (simp add: Let_def)
qed

theorem archive_then_restore_witness:
  "startsWith (getThoughtKey ''a'') THOUGHTS_KEY_PREFIX
   \<and> getItem [(getThoughtKey ''a'', ''A'')] (getThoughtKey ''a'') = Some ''A''
   \<and> DELETED_KEY_PREFIX @ ''a'' = DELETED_KEY_PREFIX @ drop (length THOUGHTS_KEY_PREFIX) (getThoughtKey ''a'')
   \<and> deleteExercise exampleHost no_faults 7 (getThoughtKey ''a'') [(getThoughtKey ''a'', ''A'')]
       = [(DELETED_KEY_PREFIX @ ''a'', ''B'')]
   \<and> getItem (restoreExercise exampleHost no_faults 9 (DELETED_KEY_PREFIX @ ''a'')
                (deleteExercise exampleHost no_faults 7 (getThoughtKey ''a'')
                   [(getThoughtKey ''a'', ''A'')])) (getThoughtKey ''a'') = Some ''C''
   \<and> getItem (restoreExercise exampleHost no_faults 9 (DELETED_KEY_PREFIX @ ''a'')
                (deleteExercise exampleHost no_faults 7 (getThoughtKey ''a'')
                   [(getThoughtKey ''a'', ''A'')])) (DELETED_KEY_PREFIX @ ''a'') = None"
proof -
  let ?key = "getThoughtKey ''a''"
  let ?arch = "DELETED_KEY_PREFIX @ ''a''"
  let ?t = "exampleThought (Has (getThoughtKey ''a'')) (Has (Date 5)) (Has (Date 5))"
  let ?t1 = "exampleThought (Has (DELETED_KEY_PREFIX @ ''a'')) (Has (Date 5)) (Has (Date 7))"
  have h1: "startsWith ?key THOUGHTS_KEY_PREFIX" by (simp add: getThoughtKey_def startsWith_append)
  have h2: "getItem [(?key, ''A'')] ?key = Some ''A''" by (simp add: getItem_def)
  have h3: "JSON_parse exampleHost ''A'' = Some (Obj ?t)" by (simp add: example_defs)
  have h4: "?arch = replace ?key THOUGHTS_KEY_PREFIX DELETED_KEY_PREFIX"
    using replace_prefix[OF h1] by (simp add: getThoughtKey_def)
  have h5: "stringify exampleHost (?t\<lparr>updatedAt := Has (Date 7), uuid := Has ?arch\<rparr>) = Str ''B''"
    by (simp add: example_defs)
  have h6: "JSON_parse exampleHost ''B'' = Some (Obj ?t1)" by (simp add: example_defs)
  have h7: "stringify exampleHost (?t1\<lparr>updatedAt := Has (Date 9), uuid := Has ?key\<rparr>) = Str ''C''"
    by (simp add: example_defs)
  have h8: "''B'' \<noteq> []" "''C'' \<noteq> []" by simp_all
  have d: "deleteExercise exampleHost no_faults 7 ?key [(?key, ''A'')] = [(?arch, ''B'')]"
    by (simp add: example_defs store_defs change_defs)
  from archive_then_restore[OF h1 h2 h3 h4 h5 h8(1) h6 h7 h8(2)] h1 h2 d
  show ?thesis by (simp add: Let_def)
qed

subsection \<open>Deleting for good\<close>

lemma deleteExercise_unreadable:
  "parseItem h (getItem st key) \<in> {None, Some Null} \<Longrightarrow> deleteExercise h f now key st = st"
  by (auto simp: deleteExercise_def)

lemma deleteExercise_permanent:
  assumes "\<not> startsWith key THOUGHTS_KEY_PREFIX" and "\<not> f GetItem" and "\<not> f RemoveItem"
    and "getItem st key = Some v" and "JSON_parse h v = Some (Obj t)"
  shows "deleteExercise h f now key st = removeItem st key"
  using assms by (simp add: deleteExercise_def parseItem_def Let_def)

lemma thoughtKeys_removeItem:
  "thoughtKeys (removeItem st key) = filter (\<lambda>k. k \<noteq> key) (thoughtKeys st)"
  by (induction st) (auto simp: thoughtKeys_def getAllKeys_def removeItem_def)

lemma multiGet_removeItem:
  "multiGet (removeItem st key) (thoughtKeys (removeItem st key))
     = filter (\<lambda>row. fst row \<noteq> key) (multiGet st (thoughtKeys st))"
proof -
  have "map (\<lambda>k. (k, map_of (removeItem st key) k)) (filter (\<lambda>k. k \<noteq> key) ks)
        = map (\<lambda>k. (k, map_of st k)) (filter (\<lambda>k. k \<noteq> key) ks)" for ks
    using getItem_removeItem[of st key] by (auto simp: getItem_def)
  then show ?thesis
    by (simp add: multiGet_def thoughtKeys_removeItem filter_map comp_def)
qed

lemma savedOf_elem:
  "x \<in> set (savedOf h rows) \<Longrightarrow> \<exists>k v. (k, v) \<in> set rows \<and> JSON_parse h v = Some x"
  by (fastforce simp: savedOf_def split: if_splits option.splits)

lemma deletedOf_elem:
  "x \<in> set (deletedOf h now rows) \<Longrightarrow> \<exists>k v. (k, v) \<in> set rows \<and> JSON_parse h v = Some x"
  by (fastforce simp: deletedOf_def split: if_splits option.splits jsvalue.splits)

lemma loaded_row_stored:
  assumes "(k, v) \<in> set (truthyRows (multiGet st (thoughtKeys st)))"
  shows "(k, v) \<in> set st
         \<and> (startsWith k THOUGHTS_KEY_PREFIX \<or> startsWith k DELETED_KEY_PREFIX)"
proof -
  from assms have "(k, Some v) \<in> set (multiGet st (thoughtKeys st))"
    by (simp add: truthyRows_set)
  then have "k \<in> set (thoughtKeys st)" and "map_of st k = Some v"
    by (auto simp: multiGet_def)
  then show ?thesis by (auto simp: thoughtKeys_def dest: map_of_SomeD)
qed

lemma loaded_record_key:
  assumes inv: "uuidMatchesKey h st"
    and mem: "Obj t \<in> set (savedThoughts (snd (getExercises h f now st)))
                    \<union> set (deletedThoughts (snd (getExercises h f now st)))"
  shows "\<exists>k. k \<in> set (thoughtKeys st) \<and> uuid t = Has k"
proof -
  let ?rows = "truthyRows (multiGet st (thoughtKeys st))"
  from mem have "Obj t \<in> set (savedOf h ?rows) \<union> set (deletedOf h now ?rows)"
    by (auto simp: getExercises_loadRows loadRows_eq emptyThoughts_def split: if_splits)
  then obtain k v where kv: "(k, v) \<in> set ?rows" and p: "JSON_parse h v = Some (Obj t)"
    using savedOf_elem deletedOf_elem by blast
  from loaded_row_stored[OF kv] have st: "(k, v) \<in> set st"
    and ns: "startsWith k THOUGHTS_KEY_PREFIX \<or> startsWith k DELETED_KEY_PREFIX" by simp_all
  from st have "k \<in> set (thoughtKeys st)"
    using ns by (force simp: thoughtKeys_def getAllKeys_def)
  moreover from inv st ns p have "uuid t = Has k"
    by (force simp: uuidMatchesKey_def list_all_iff)
  ultimately show ?thesis by blast
qed

lemma removeItem_uuidMatchesKey: "uuidMatchesKey h st \<Longrightarrow> uuidMatchesKey h (removeItem st k)"
  by (auto simp: uuidMatchesKey_def removeItem_def list_all_iff)

text \<open>
  C8, as the code has it. \<open>deleteExercise\<close> on a key outside the ACTIVE namespace reads
  and parses the stored value first. When the value parses to an object and neither
  \<open>getItem\<close> nor \<open>removeItem\<close> rejects, the key is removed and nothing is written: the key
  is absent from the store, the next load reads the rows it read before without the row
  of that key, and, where every stored thought carries its key as \<open>uuid\<close>, no record that
  the next load returns as saved or deleted thought carries the identifier. When the
  stored value does not parse, parses to \<open>null\<close>, or the key is missing, the operation
  leaves the store as it is, whatever the key and whatever else fails.
\<close>

theorem permanentDelete_removes_key:
  "(\<not> startsWith key THOUGHTS_KEY_PREFIX \<and> \<not> f GetItem \<and> \<not> f RemoveItem
      \<and> getItem st key = Some v \<and> JSON_parse h v = Some (Obj t) \<longrightarrow>
        deleteExercise h f now key st = removeItem st key
        \<and> getItem (deleteExercise h f now key st) key = None
        \<and> key \<notin> set (thoughtKeys (deleteExercise h f now key st))
        \<and> multiGet (deleteExercise h f now key st) (thoughtKeys (deleteExercise h f now key st))
            = filter (\<lambda>row. fst row \<noteq> key) (multiGet st (thoughtKeys st))
        \<and> (uuidMatchesKey h st \<and>
             Obj t' \<in> set (savedThoughts (snd (getExercises h f' now' (deleteExercise h f now key st))))
                     \<union> set (deletedThoughts (snd (getExercises h f' now' (deleteExercise h f now key st))))
             \<longrightarrow> uuid t' \<noteq> Has key))
   \<and> (parseItem h (getItem st key) \<in> {None, Some Null} \<longrightarrow> deleteExercise h f now key st = st)
   \<and> (getItem st key = None \<longrightarrow> deleteExercise h f now key st = st)"
proof -
  have a: "deleteExercise h f now key st = removeItem st key
        \<and> getItem (deleteExercise h f now key st) key = None
        \<and> key \<notin> set (thoughtKeys (deleteExercise h f now key st))
        \<and> multiGet (deleteExercise h f now key st) (thoughtKeys (deleteExercise h f now key st))
            = filter (\<lambda>row. fst row \<noteq> key) (multiGet st (thoughtKeys st))
        \<and> (uuidMatchesKey h st \<and>
             Obj t' \<in> set (savedThoughts (snd (getExercises h f' now' (deleteExercise h f now key st))))
                     \<union> set (deletedThoughts (snd (getExercises h f' now' (deleteExercise h f now key st))))
             \<longrightarrow> uuid t' \<noteq> Has key)"
    if h: "\<not> startsWith key THOUGHTS_KEY_PREFIX" "\<not> f GetItem" "\<not> f RemoveItem"
      "getItem st key = Some v" "JSON_parse h v = Some (Obj t)"
  proof -
    have d: "deleteExercise h f now key st = removeItem st key"
      using h by (rule deleteExercise_permanent)
    have k: "key \<notin> set (thoughtKeys (removeItem st key))"
      by (simp add: thoughtKeys_removeItem)
    have l: "uuid t' \<noteq> Has key"
      if inv: "uuidMatchesKey h st"
        and mem: "Obj t' \<in> set (savedThoughts (snd (getExercises h f' now' (removeItem st key))))
                     \<union> set (deletedThoughts (snd (getExercises h f' now' (removeItem st key))))"
    proof -
      from loaded_record_key[OF removeItem_uuidMatchesKey[OF inv] mem]
      obtain k' where "k' \<in> set (thoughtKeys (removeItem st key))" and "uuid t' = Has k'" by blast
      with k show ?thesis by auto
    qed
    from d k l show ?thesis
      by (simp add: getItem_removeItem multiGet_removeItem)
  qed
  have b: "deleteExercise h f now key st = st" if "parseItem h (getItem st key) \<in> {None, Some Null}"
    using that by (rule deleteExercise_unreadable)
  have c: "deleteExercise h f now key st = st" if "getItem st key = None"
    using that by (intro deleteExercise_unreadable) (simp add: parseItem_def)
  from a b c show ?thesis by blast
qed

theorem permanentDelete_removes_key_witness:
  "deleteExercise exampleHost no_faults 9 (DELETED_KEY_PREFIX @ ''a'')
        [(EXISTING_USER_KEY, ''true''), (getThoughtKey ''a'', ''A''), (DELETED_KEY_PREFIX @ ''a'', ''B'')]
       = [(EXISTING_USER_KEY, ''true''), (getThoughtKey ''a'', ''A'')]
   \<and> snd (getExercises exampleHost no_faults 9
        (deleteExercise exampleHost no_faults 9 (DELETED_KEY_PREFIX @ ''a'')
          [(EXISTING_USER_KEY, ''true''), (getThoughtKey ''a'', ''A''), (DELETED_KEY_PREFIX @ ''a'', ''B'')]))
       = \<lparr>savedThoughts = [Obj (exampleThought (Has (getThoughtKey ''a'')) (Has (Date 5)) (Has (Date 5)))],
          deletedThoughts = []\<rparr>
   \<and> uuid (exampleThought (Has (getThoughtKey ''a'')) (Has (Date 5)) (Has (Date 5)))
       \<noteq> Has (DELETED_KEY_PREFIX @ ''a'')
   \<and> deleteExercise exampleHost no_faults 9 (DELETED_KEY_PREFIX @ ''q'')
        [(DELETED_KEY_PREFIX @ ''q'', ''{oops'')] = [(DELETED_KEY_PREFIX @ ''q'', ''{oops'')]
   \<and> deleteExercise exampleHost no_faults 9 (DELETED_KEY_PREFIX @ ''q'')
        [(EXISTING_USER_KEY, ''true'')] = [(EXISTING_USER_KEY, ''true'')]"
proof -
  let ?key = "DELETED_KEY_PREFIX @ ''a''"
  let ?q = "DELETED_KEY_PREFIX @ ''q''"
  let ?st = "[(EXISTING_USER_KEY, ''true''), (getThoughtKey ''a'', ''A''), (?key, ''B'')]"
  let ?st' = "[(EXISTING_USER_KEY, ''true''), (getThoughtKey ''a'', ''A'')]"
  let ?tA = "exampleThought (Has (getThoughtKey ''a'')) (Has (Date 5)) (Has (Date 5))"
  let ?tB = "exampleThought (Has (DELETED_KEY_PREFIX @ ''a'')) (Has (Date 5)) (Has (Date 7))"
  have h1: "\<not> startsWith ?key THOUGHTS_KEY_PREFIX" by (rule deleted_not_active)
  have h2: "\<not> no_faults GetItem" "\<not> no_faults RemoveItem" by (simp_all add: no_faults_def)
  have h3: "getItem ?st ?key = Some ''B''"
    by (simp add: example_defs store_defs EXISTING_USER_KEY_def)
  have h4: "JSON_parse exampleHost ''B'' = Some (Obj ?tB)" by (simp add: example_defs)
  have h5: "uuidMatchesKey exampleHost ?st"
    by (simp add: uuidMatchesKey_def example_defs startsWith_def EXISTING_USER_KEY_def)
  have r: "removeItem ?st ?key = ?st'"
    by (simp add: example_defs store_defs EXISTING_USER_KEY_def)
  have g: "snd (getExercises exampleHost no_faults 9 ?st')
       = \<lparr>savedThoughts = [Obj ?tA], deletedThoughts = []\<rparr>"
    by (simp add: example_defs store_defs load_defs EXISTING_USER_KEY_def)
  have h6: "parseItem exampleHost (getItem [(?q, ''{oops'')] ?q) \<in> {None, Some Null}"
    by (simp add: example_defs store_defs parseItem_def)
  have h7: "getItem [(EXISTING_USER_KEY, ''true'')] ?q = None"
    by (simp add: example_defs store_defs EXISTING_USER_KEY_def)
  from permanentDelete_removes_key[of ?key no_faults ?st "''B''" exampleHost ?tB 9 ?tA no_faults 9]
    h1 h2 h3 h4
  have d: "deleteExercise exampleHost no_faults 9 ?key ?st = removeItem ?st ?key"
    and m: "uuidMatchesKey exampleHost ?st \<and>
             Obj ?tA \<in> set (savedThoughts (snd (getExercises exampleHost no_faults 9
                                (deleteExercise exampleHost no_faults 9 ?key ?st))))
                     \<union> set (deletedThoughts (snd (getExercises exampleHost no_faults 9
                                (deleteExercise exampleHost no_faults 9 ?key ?st))))
             \<longrightarrow> uuid ?tA \<noteq> Has ?key"
    by blast+
  from d r g have g': "snd (getExercises exampleHost no_faults 9
        (deleteExercise exampleHost no_faults 9 ?key ?st))
       = \<lparr>savedThoughts = [Obj ?tA], deletedThoughts = []\<rparr>" by simp
  from m h5 g' have u: "uuid ?tA \<noteq> Has ?key" by simp
  from permanentDelete_removes_key[of ?q no_faults "[(?q, ''{oops'')]" "''B''" exampleHost ?tB 9 ?tA no_faults 9] h6
  have e1: "deleteExercise exampleHost no_faults 9 ?q [(?q, ''{oops'')] = [(?q, ''{oops'')]" by blast
  from permanentDelete_removes_key[of ?q no_faults "[(EXISTING_USER_KEY, ''true'')]" "''B''" exampleHost ?tB 9 ?tA no_faults 9] h7
  have e2: "deleteExercise exampleHost no_faults 9 ?q [(EXISTING_USER_KEY, ''true'')]
      = [(EXISTING_USER_KEY, ''true'')]" by blast
  from d r g' u e1 e2 show ?thesis by simp
qed

text \<open>
  C8 as the specification words it fails for an ARCHIVED key whose value does not parse:
  the exception of \<open>JSON.parse\<close> ends the operation before \<open>removeItem\<close>, and the key
  stays.
\<close>

theorem deleteExercise_unparsable_counterexample:
  "startsWith (DELETED_KEY_PREFIX @ ''q'') DELETED_KEY_PREFIX
   \<and> JSON_parse exampleHost ''{oops'' = None
   \<and> deleteExercise exampleHost no_faults 9 (DELETED_KEY_PREFIX @ ''q'') [(DELETED_KEY_PREFIX @ ''q'', ''{oops'')]
       = [(DELETED_KEY_PREFIX @ ''q'', ''{oops'')]
   \<and> getItem (deleteExercise exampleHost no_faults 9 (DELETED_KEY_PREFIX @ ''q'')
                [(DELETED_KEY_PREFIX @ ''q'', ''{oops'')]) (DELETED_KEY_PREFIX @ ''q'') = Some ''{oops''"
  by (simp add: example_defs store_defs change_defs)

subsection \<open>The key invariant is preserved\<close>





subsection \<open>Saving\<close>




text \<open>
  C6, as the code has it. For an input without a \<open>uuid\<close> property \<open>saveExercise\<close> returns
  the record with the minted key \<open>THOUGHTS_KEY_PREFIX @ fresh\<close> as uuid; \<open>createdAt\<close> and
  \<open>updatedAt\<close> are each set to now when the input lacks the property and are kept when the
  input has it, since the spread of the input comes last. The record is written under
  the minted key. An input whose \<open>uuid\<close> property is present and holds undefined keeps it
  undefined. For an input that has a uuid, \<open>saveExercise\<close> returns the record with only
  \<open>updatedAt\<close> set to now and writes it under that same uuid. (A write takes place when
  \<open>stringify\<close> gives a non-empty string and \<open>setItem\<close> does not reject.)
\<close>

theorem saveExercise_stamps:
  "(uuid t = Absent \<longrightarrow>
      snd (saveExercise h f now fresh t st)
        = t\<lparr>uuid := Has (THOUGHTS_KEY_PREFIX @ fresh),
            createdAt := (if createdAt t = Absent then Has (Date now) else createdAt t),
            updatedAt := (if updatedAt t = Absent then Has (Date now) else updatedAt t)\<rparr>
      \<and> (stringify h (snd (saveExercise h f now fresh t st)) = Str s \<and> s \<noteq> [] \<and> \<not> f SetItem
           \<longrightarrow> fst (saveExercise h f now fresh t st) = setItem st (THOUGHTS_KEY_PREFIX @ fresh) s))
   \<and> (uuid t = Undef \<longrightarrow> uuid (snd (saveExercise h f now fresh t st)) = Undef)
   \<and> (uuid t = Has key \<longrightarrow>
      snd (saveExercise h f now fresh t st) = t\<lparr>updatedAt := Has (Date now)\<rparr>
      \<and> (stringify h (t\<lparr>updatedAt := Has (Date now)\<rparr>) = Str s \<and> s \<noteq> [] \<and> \<not> f SetItem
           \<longrightarrow> fst (saveExercise h f now fresh t st) = setItem st key s))"
proof -
  have r: "snd (saveExercise h f now fresh t st) = saveableThought_of now fresh t"
    by (simp add: saveExercise_def saveThought_def split: stringified.splits option.splits)
  have a: "uuid t = Absent \<Longrightarrow> saveableThought_of now fresh t
        = t\<lparr>uuid := Has (THOUGHTS_KEY_PREFIX @ fresh),
            createdAt := (if createdAt t = Absent then Has (Date now) else createdAt t),
            updatedAt := (if updatedAt t = Absent then Has (Date now) else updatedAt t)\<rparr>"
    by (simp add: saveableThought_of_def spread_def getThoughtKey_def split: jsprop.splits)
  have b: "uuid t = Undef \<Longrightarrow> uuid (saveableThought_of now fresh t) = Undef"
    by (simp add: saveableThought_of_def spread_def)
  have c: "uuid t = Has key \<Longrightarrow> saveableThought_of now fresh t = t\<lparr>updatedAt := Has (Date now)\<rparr>"
    by (simp add: saveableThought_of_def)
  have w: "stringify h (saveableThought_of now fresh t) = Str s \<Longrightarrow> s \<noteq> [] \<Longrightarrow> \<not> f SetItem
      \<Longrightarrow> uuid (saveableThought_of now fresh t) = Has k
      \<Longrightarrow> fst (saveExercise h f now fresh t st) = setItem st k s" for k
    by (simp add: saveExercise_def saveThought_def)
  show ?thesis
  proof (intro conjI impI)
    assume u: "uuid t = Absent"
    show "snd (saveExercise h f now fresh t st)
        = t\<lparr>uuid := Has (THOUGHTS_KEY_PREFIX @ fresh),
            createdAt := (if createdAt t = Absent then Has (Date now) else createdAt t),
            updatedAt := (if updatedAt t = Absent then Has (Date now) else updatedAt t)\<rparr>"
      using r a[OF u] by simp
    assume "stringify h (snd (saveExercise h f now fresh t st)) = Str s \<and> s \<noteq> [] \<and> \<not> f SetItem"
    then show "fst (saveExercise h f now fresh t st) = setItem st (THOUGHTS_KEY_PREFIX @ fresh) s"
      using w[of "THOUGHTS_KEY_PREFIX @ fresh"] a[OF u] r by simp
  next
    assume "uuid t = Undef"
    then show "uuid (snd (saveExercise h f now fresh t st)) = Undef" using r b by simp
  next
    assume u: "uuid t = Has key"
    show "snd (saveExercise h f now fresh t st) = t\<lparr>updatedAt := Has (Date now)\<rparr>"
      using r c[OF u] by simp
    assume "stringify h (t\<lparr>updatedAt := Has (Date now)\<rparr>) = Str s \<and> s \<noteq> [] \<and> \<not> f SetItem"
    then show "fst (saveExercise h f now fresh t st) = setItem st key s"
      using w[of key] c[OF u] u by simp
  qed
qed

theorem saveExercise_stamps_witness:
  "saveExercise exampleHost no_faults 7 ''n'' (exampleThought Absent Absent Absent) []
     = ([(THOUGHTS_KEY_PREFIX @ ''n'', ''N'')],
        exampleThought (Has (THOUGHTS_KEY_PREFIX @ ''n'')) (Has (Date 7)) (Has (Date 7)))
   \<and> uuid (snd (saveExercise exampleHost no_faults 7 ''n'' (exampleThought Undef Absent Absent) []))
     = Undef
   \<and> saveExercise exampleHost no_faults 9 ''z''
           (exampleThought (Has (getThoughtKey ''a'')) (Has (Date 5)) (Has (Date 5)))
           [(''other'', ''x''), (getThoughtKey ''a'', ''A'')]
     = ([(''other'', ''x''), (getThoughtKey ''a'', ''C'')],
        exampleThought (Has (getThoughtKey ''a'')) (Has (Date 5)) (Has (Date 9)))"
proof -
  let ?t1 = "exampleThought Absent Absent Absent"
  let ?t2 = "exampleThought (Has (getThoughtKey ''a'')) (Has (Date 5)) (Has (Date 5))"
  let ?t3 = "exampleThought Undef Absent Absent"
  let ?st2 = "[(''other'', ''x''), (getThoughtKey ''a'', ''A'')]"
  have a1: "uuid ?t1 = Absent" by (simp add: exampleThought_def)
  have a2: "stringify exampleHost (snd (saveExercise exampleHost no_faults 7 ''n'' ?t1 [])) = Str ''N''
            \<and> ''N'' \<noteq> [] \<and> \<not> no_faults SetItem"
    by (simp add: example_defs change_defs)
  have b1: "uuid ?t2 = Has (getThoughtKey ''a'')" by (simp add: exampleThought_def)
  have b2: "stringify exampleHost (?t2\<lparr>updatedAt := Has (Date 9)\<rparr>) = Str ''C''
            \<and> ''C'' \<noteq> [] \<and> \<not> no_faults SetItem"
    by (simp add: example_defs)
  have c1: "uuid ?t3 = Undef" by (simp add: exampleThought_def)
  from saveExercise_stamps[of ?t1 exampleHost no_faults 7 "''n''" "[]" "''N''" "''k''"] a1 a2
  have r1: "snd (saveExercise exampleHost no_faults 7 ''n'' ?t1 [])
        = ?t1\<lparr>uuid := Has (THOUGHTS_KEY_PREFIX @ ''n''),
            createdAt := (if createdAt ?t1 = Absent then Has (Date 7) else createdAt ?t1),
            updatedAt := (if updatedAt ?t1 = Absent then Has (Date 7) else updatedAt ?t1)\<rparr>"
    and r2: "fst (saveExercise exampleHost no_faults 7 ''n'' ?t1 []) = setItem [] (THOUGHTS_KEY_PREFIX @ ''n'') ''N''"
    by blast+
  from saveExercise_stamps[of ?t2 exampleHost no_faults 9 "''z''" ?st2 "''C''" "getThoughtKey ''a''"] b1 b2
  have r3: "snd (saveExercise exampleHost no_faults 9 ''z'' ?t2 ?st2) = ?t2\<lparr>updatedAt := Has (Date 9)\<rparr>"
    and r4: "fst (saveExercise exampleHost no_faults 9 ''z'' ?t2 ?st2) = setItem ?st2 (getThoughtKey ''a'') ''C''"
    by blast+
  from saveExercise_stamps[of ?t3 exampleHost no_faults 7 "''n''" "[]" "''N''" "''k''"] c1
  have r5: "uuid (snd (saveExercise exampleHost no_faults 7 ''n'' ?t3 [])) = Undef" by blast
  have e1: "?t1\<lparr>uuid := Has (THOUGHTS_KEY_PREFIX @ ''n''),
            createdAt := (if createdAt ?t1 = Absent then Has (Date 7) else createdAt ?t1),
            updatedAt := (if updatedAt ?t1 = Absent then Has (Date 7) else updatedAt ?t1)\<rparr>
       = exampleThought (Has (THOUGHTS_KEY_PREFIX @ ''n'')) (Has (Date 7)) (Has (Date 7))"
    by (simp add: exampleThought_def)
  have e3: "?t2\<lparr>updatedAt := Has (Date 9)\<rparr> = exampleThought (Has (getThoughtKey ''a'')) (Has (Date 5)) (Has (Date 9))"
    by (simp add: exampleThought_def)
  have e4: "setItem ?st2 (getThoughtKey ''a'') ''C'' = [(''other'', ''x''), (getThoughtKey ''a'', ''C'')]"
    by (simp add: getThoughtKey_def THOUGHTS_KEY_PREFIX_def)
  have p1: "saveExercise exampleHost no_faults 7 ''n'' ?t1 []
     = ([(THOUGHTS_KEY_PREFIX @ ''n'', ''N'')],
        exampleThought (Has (THOUGHTS_KEY_PREFIX @ ''n'')) (Has (Date 7)) (Has (Date 7)))"
    using r1 r2 e1 by (simp add: prod_eq_iff)
  have p2: "saveExercise exampleHost no_faults 9 ''z'' ?t2 ?st2
     = ([(''other'', ''x''), (getThoughtKey ''a'', ''C'')],
        exampleThought (Has (getThoughtKey ''a'')) (Has (Date 5)) (Has (Date 9)))"
    using r3 r4 e3 e4 by (simp add: prod_eq_iff)
  from p1 p2 r5 show ?thesis by blast
qed

text \<open>
  C6 as the specification words it fails for an input with no identifier that already
  has a \<open>createdAt\<close>: the given stamp 5 is kept although now is 7. It also fails for an
  input whose \<open>uuid\<close> is present and undefined: no identifier is minted.
\<close>

theorem saveExercise_keeps_given_stamp_counterexample:
  "snd (saveExercise exampleHost no_faults 7 ''n'' (exampleThought Absent (Has (Date 5)) Absent) [])
     = exampleThought (Has (getThoughtKey ''n'')) (Has (Date 5)) (Has (Date 7))
   \<and> Has (Date 5) \<noteq> Has (Date 7)
   \<and> snd (saveExercise exampleHost no_faults 7 ''n'' (exampleThought Undef Absent Absent) [])
     = exampleThought Undef (Has (Date 7)) (Has (Date 7))
   \<and> readProp (uuid (exampleThought Undef (Has (Date 7)) (Has (Date 7)))) = None"
  by (simp add: example_defs change_defs)

end
